theory Spec2Isabelle
  imports Main
begin

section \<open>Values of the JavaScript runtime\<close>

text \<open>
  The handlers of \<^verbatim>\<open>controllers/FilesController.js\<close> receive the fields of a JSON body
  unchecked, and test them only for truthiness. A field is therefore a JavaScript value;
  arrays and objects are always truthy and are never inspected, so they share one
  constructor. Numbers are integers here: the handlers compare a number with \<open>0\<close> only.
\<close>

datatype jsval = JUndefined | JNull | JBool bool | JNum int | JStr string | JObject

fun truthy :: "jsval \<Rightarrow> bool" where
  "truthy JUndefined = False"
| "truthy JNull = False"
| "truthy (JBool b) = b"
| "truthy (JNum n) = (n \<noteq> 0)"
| "truthy (JStr s) = (s \<noteq> [])"
| "truthy JObject = True"

text \<open>A destructuring default (\<open>{ parentId = 0 }\<close>) replaces \<open>undefined\<close> only.\<close>

definition js_default :: "jsval \<Rightarrow> jsval \<Rightarrow> jsval" where
  "js_default v d = (if v = JUndefined then d else v)"

type_synonym bytes = string

text \<open>Identifiers of the document store, with the string they print as.\<close>

datatype oid = Oid string

fun oid_toString :: "oid \<Rightarrow> string" where
  "oid_toString (Oid s) = s"

text \<open>Decimal rendering of a number inside a template literal.\<close>

definition digit_char :: "nat \<Rightarrow> char" where
  "digit_char n = ''0123456789'' ! n"

fun string_of_nat :: "nat \<Rightarrow> string" where
  "string_of_nat n =
     (if n < 10 then [digit_char n] else string_of_nat (n div 10) @ [digit_char (n mod 10)])"

declare string_of_nat.simps [simp del]

section \<open>Stores\<close>

text \<open>
  A document of the \<open>files\<close> collection. \<open>postUpload\<close> writes every field but
  \<open>localPath\<close>; the sample documents that one of the two database clients inserts at
  start-up carry a name only, so the owner is optional and the other fields may be
  \<open>undefined\<close>.
\<close>

record file_doc =
  f_id :: oid
  f_userId :: "oid option"
  f_name :: jsval
  f_type :: jsval
  f_isPublic :: jsval
  f_parentId :: jsval
  f_localPath :: "string option"

text \<open>The data of a job of the queue \<open>fileQueue\<close>.\<close>

record job =
  j_userId :: jsval
  j_fileId :: jsval

text \<open>
  The state the handlers and the worker share: the session store (keys to user ids), the
  ids of the \<open>users\<close> collection, the \<open>files\<close> collection in insertion order, the regular
  files of the disk, and the queue.
\<close>

record state =
  redis :: "string \<rightharpoonup> string"
  users :: "oid list"
  files :: "file_doc list"
  disk :: "string \<rightharpoonup> bytes"
  fileQueue :: "job list"

text \<open>
  What the handlers take from libraries and from the process environment. \<open>ObjectId\<close>
  throws on a value that is no identifier (\<open>None\<close>); \<open>parseInt\<close> yields \<open>NaN\<close> (\<open>None\<close>)
  or an integer; \<open>mime_lookup\<close> is \<open>mime.lookup\<close> of the package mime-types, which yields
  \<open>false\<close> (\<open>None\<close>) when it knows no type; \<open>Buffer_from_base64\<close> throws (\<open>None\<close>) on a
  value that is neither a string nor a buffer-like object; \<open>imageThumbnail\<close> rejects
  (\<open>None\<close>) an image that it cannot decode.
\<close>

record env =
  ObjectId :: "jsval \<Rightarrow> oid option"
  parseInt :: "string option \<Rightarrow> int option"
  mime_lookup :: "jsval \<Rightarrow> string option"
  Buffer_from_base64 :: "jsval \<Rightarrow> bytes option"
  imageThumbnail :: "bytes \<Rightarrow> nat \<Rightarrow> bytes option"
  FOLDER_PATH :: "string option"

text \<open>
  How a call of \<open>fs.promises.writeFile\<close> ends. The file is opened with the flag \<open>w\<close>, which
  creates or empties it, and is then filled. A call that is rejected when it opens the
  file leaves the disk as it was; a call that is rejected later (a full disk) leaves the
  bytes written so far, possibly none. Nothing in the repository removes such a file.
\<close>

datatype write_outcome = Written | Rejected_on_open | Rejected_after nat

text \<open>
  What one run draws from its surroundings: the value of \<open>uuidv4()\<close>, the identifier that
  \<open>insertOne\<close> assigns, how a write to a path ends, and whether the insertion is rejected
  (a lost connection). These are the calls that change a store; the calls that only read
  one are taken to answer.
\<close>

record chance =
  uuid :: string
  insertedId :: oid
  writeFile_outcome :: "string \<Rightarrow> write_outcome"
  insertOne_rejects :: bool

section \<open>Requests and responses\<close>

text \<open>
  The parts of a request that the handlers read. A header or a query parameter is a
  string or absent, and \<open>!x\<close> holds for the absent and for the empty string alike; the
  fields of the body are any values.
\<close>

record request =
  x_token :: "string option"
  params_id :: string
  query_size :: "string option"
  query_parentId :: "string option"
  query_page :: "string option"
  body_name :: jsval
  body_type :: jsval
  body_parentId :: jsval
  body_isPublic :: jsval
  body_data :: jsval

record upload_reply =
  r_id :: oid
  r_userId :: oid
  r_name :: jsval
  r_type :: jsval
  r_isPublic :: jsval
  r_parentId :: jsval

datatype json_body =
    Error string
  | Created upload_reply
  | Document file_doc
  | Documents "file_doc list"

text \<open>The argument of \<open>res.setHeader('Content-Type', _)\<close>: a type, or \<open>false\<close>.\<close>

datatype content_type = Mime string | No_mime

datatype exn =
    BSONError
  | TypeError
  | WriteError
  | InsertError
  | MongoError
  | JobError string
  | ThumbnailError

text \<open>
  A handler answers with a status and a JSON body, or pipes a file after setting the
  content type, or throws: no handler catches anything, so a rejected call ends the
  handler without an answer.
\<close>

datatype response =
    Json nat json_body
  | Piped content_type bytes
  | Thrown exn

definition unauthorized :: response where
  "unauthorized = Json 401 (Error ''Unauthorized'')"

definition not_found :: response where
  "not_found = Json 404 (Error ''Not found'')"

definition bad_request :: "string \<Rightarrow> response" where
  "bad_request msg = Json 400 (Error msg)"

section \<open>FilesController.postUpload\<close>

text \<open>Lines 14 to 18, shared by every handler that needs a token: the user id of the
  session, or the 401 answer.\<close>

definition session_user :: "request \<Rightarrow> state \<Rightarrow> string option" where
  "session_user req s =
     (case x_token req of
        None \<Rightarrow> None
      | Some token \<Rightarrow>
          if token = [] then None
          else (case redis s (''auth_'' @ token) of
                  None \<Rightarrow> None
                | Some userId \<Rightarrow> if userId = [] then None else Some userId))"

definition allowed_types :: "jsval list" where
  "allowed_types = [JStr ''folder'', JStr ''file'', JStr ''image'']"

text \<open>Lines 25 to 27: the first failing check decides the answer.\<close>

definition validate :: "jsval \<Rightarrow> jsval \<Rightarrow> jsval \<Rightarrow> string option" where
  "validate name type data =
     (if \<not> truthy name then Some ''Missing name''
      else if \<not> truthy type \<or> type \<notin> set allowed_types then Some ''Missing type''
      else if \<not> truthy data \<and> type \<noteq> JStr ''folder'' then Some ''Missing data''
      else None)"

text \<open>Lines 29 to 33: the parent is looked up by its id alone; \<open>Some r\<close> is the answer
  that ends the handler.\<close>

definition check_parent :: "env \<Rightarrow> jsval \<Rightarrow> state \<Rightarrow> response option" where
  "check_parent e parentId s =
     (if parentId \<noteq> JNum 0 then
        (case ObjectId e parentId of
           None \<Rightarrow> Some (Thrown BSONError)
         | Some pid \<Rightarrow>
             (case find (\<lambda>d. f_id d = pid) (files s) of
                None \<Rightarrow> Some (bad_request ''Parent not found'')
              | Some parentFile \<Rightarrow>
                  if f_type parentFile \<noteq> JStr ''folder''
                  then Some (bad_request ''Parent is not a folder'')
                  else None))
      else None)"

text \<open>\<open>path.join\<close> of a directory and a file name that holds no separator; the removal of
  doubled separators is left out.\<close>

definition path_join :: "string \<Rightarrow> string \<Rightarrow> string" where
  "path_join dir file = dir @ ''/'' @ file"

definition folderPath :: "env \<Rightarrow> string" where
  "folderPath e =
     (case FOLDER_PATH e of
        None \<Rightarrow> ''/tmp/files_manager''
      | Some p \<Rightarrow> if p = [] then ''/tmp/files_manager'' else p)"

definition insertOne :: "file_doc \<Rightarrow> state \<Rightarrow> state" where
  "insertOne d s = s\<lparr>files := files s @ [d]\<rparr>"

text \<open>The flag tells whether the promise of \<open>writeFile\<close> is fulfilled.\<close>

definition writeFile :: "chance \<Rightarrow> string \<Rightarrow> bytes \<Rightarrow> state \<Rightarrow> bool \<times> state" where
  "writeFile c p b s =
     (case writeFile_outcome c p of
        Written \<Rightarrow> (True, s\<lparr>disk := (disk s)(p \<mapsto> b)\<rparr>)
      | Rejected_on_open \<Rightarrow> (False, s)
      | Rejected_after n \<Rightarrow> (False, s\<lparr>disk := (disk s)(p \<mapsto> take n b)\<rparr>))"

definition queue_add :: "job \<Rightarrow> state \<Rightarrow> state" where
  "queue_add j s = s\<lparr>fileQueue := fileQueue s @ [j]\<rparr>"

text \<open>
  Lines 35 to 81, for the user \<open>uid\<close> and the validated fields. The directory that
  \<open>mkdirSync\<close> may create holds no blob and is not tracked. The blob is written before
  the document is inserted, and the job is added without waiting for the queue. A
  rejected call ends the handler where it stands: what it has left on the disk stays.
\<close>

definition store_upload ::
  "env \<Rightarrow> chance \<Rightarrow> oid \<Rightarrow> jsval \<Rightarrow> jsval \<Rightarrow> jsval \<Rightarrow> jsval \<Rightarrow> jsval \<Rightarrow> state \<Rightarrow> response \<times> state"
where
  "store_upload e c uid name type isPublic parentId data s =
     (let fileDocument = \<lparr>f_id = insertedId c, f_userId = Some uid, f_name = name,
                           f_type = type, f_isPublic = isPublic, f_parentId = parentId,
                           f_localPath = None\<rparr>;
          reply = Json 201 (Created \<lparr>r_id = insertedId c, r_userId = uid, r_name = name,
                                      r_type = type, r_isPublic = isPublic,
                                      r_parentId = parentId\<rparr>)
      in
      if type = JStr ''folder'' then
        (if insertOne_rejects c then (Thrown InsertError, s)
         else (reply, insertOne fileDocument s))
      else
        (let localPath = path_join (folderPath e) (uuid c) in
         case Buffer_from_base64 e data of
           None \<Rightarrow> (Thrown TypeError, s)
         | Some fileBuffer \<Rightarrow>
             (case writeFile c localPath fileBuffer s of
                (False, s1) \<Rightarrow> (Thrown WriteError, s1)
              | (True, s1) \<Rightarrow>
                  if insertOne_rejects c then (Thrown InsertError, s1)
                  else
                    (let s2 = insertOne (fileDocument\<lparr>f_localPath := Some localPath\<rparr>) s1;
                         s3 = (if type = JStr ''image''
                               then queue_add \<lparr>j_userId = JStr (oid_toString uid),
                                               j_fileId = JStr (oid_toString (insertedId c))\<rparr> s2
                               else s2)
                     in (reply, s3)))))"

definition postUpload :: "env \<Rightarrow> chance \<Rightarrow> request \<Rightarrow> state \<Rightarrow> response \<times> state" where
  "postUpload e c req s =
     (case session_user req s of
        None \<Rightarrow> (unauthorized, s)
      | Some userId \<Rightarrow>
          (case ObjectId e (JStr userId) of
             None \<Rightarrow> (Thrown BSONError, s)
           | Some uid \<Rightarrow>
               if uid \<notin> set (users s) then (unauthorized, s)
               else
                 (let name = body_name req;
                      type = body_type req;
                      parentId = js_default (body_parentId req) (JNum 0);
                      isPublic = js_default (body_isPublic req) (JBool False);
                      data = body_data req
                  in case validate name type data of
                       Some msg \<Rightarrow> (bad_request msg, s)
                     | None \<Rightarrow>
                         (case check_parent e parentId s of
                            Some r \<Rightarrow> (r, s)
                          | None \<Rightarrow> store_upload e c uid name type isPublic parentId data s))))"

section \<open>FilesController.getShow\<close>

text \<open>A document is shown to its owner only; the filter names the id and the owner.\<close>

definition owned_by :: "oid \<Rightarrow> oid \<Rightarrow> file_doc \<Rightarrow> bool" where
  "owned_by fid uid d \<longleftrightarrow> f_id d = fid \<and> f_userId d = Some uid"

definition getShow :: "env \<Rightarrow> request \<Rightarrow> state \<Rightarrow> response" where
  "getShow e req s =
     (case session_user req s of
        None \<Rightarrow> unauthorized
      | Some userId \<Rightarrow>
          (case ObjectId e (JStr (params_id req)) of
             None \<Rightarrow> Thrown BSONError
           | Some fid \<Rightarrow>
               (case ObjectId e (JStr userId) of
                  None \<Rightarrow> Thrown BSONError
                | Some uid \<Rightarrow>
                    (case find (owned_by fid uid) (files s) of
                       None \<Rightarrow> not_found
                     | Some file \<Rightarrow> Json 200 (Document file)))))"

section \<open>FilesController.getIndex\<close>

definition pageSize :: int where
  "pageSize = 20"

text \<open>The stage \<open>$match\<close> compares values with their types: the string \<open>'0'\<close> is not the
  number \<open>0\<close>.\<close>

definition match_stage :: "oid \<Rightarrow> string \<Rightarrow> file_doc \<Rightarrow> bool" where
  "match_stage uid parentId d \<longleftrightarrow> f_userId d = Some uid \<and> f_parentId d = JStr parentId"

definition getIndex :: "env \<Rightarrow> request \<Rightarrow> state \<Rightarrow> response" where
  "getIndex e req s =
     (case session_user req s of
        None \<Rightarrow> unauthorized
      | Some userId \<Rightarrow>
          (let parentId = (case query_parentId req of
                             None \<Rightarrow> ''0''
                           | Some p \<Rightarrow> if p = [] then ''0'' else p);
               page = (case parseInt e (query_page req) of None \<Rightarrow> 0 | Some n \<Rightarrow> n)
           in case ObjectId e (JStr userId) of
                None \<Rightarrow> Thrown BSONError
              | Some uid \<Rightarrow>
                  if page * pageSize < 0 then Thrown MongoError
                  else Json 200 (Documents
                         (take (nat pageSize)
                            (drop (nat (page * pageSize))
                               (filter (match_stage uid parentId) (files s)))))))"

section \<open>FilesController.putPublish and putUnpublish\<close>

text \<open>\<open>findOneAndUpdate\<close> with \<open>returnDocument: 'after'\<close>: the first document that matches
  the filter is replaced, and the replacement is returned.\<close>

fun findOneAndUpdate ::
  "(file_doc \<Rightarrow> bool) \<Rightarrow> (file_doc \<Rightarrow> file_doc) \<Rightarrow> file_doc list \<Rightarrow> file_doc option \<times> file_doc list"
where
  "findOneAndUpdate flt upd [] = (None, [])"
| "findOneAndUpdate flt upd (d # ds) =
     (if flt d then (Some (upd d), upd d # ds)
      else (case findOneAndUpdate flt upd ds of (r, ds') \<Rightarrow> (r, d # ds')))"

definition putPublish :: "env \<Rightarrow> request \<Rightarrow> state \<Rightarrow> response \<times> state" where
  "putPublish e req s =
     (case session_user req s of
        None \<Rightarrow> (unauthorized, s)
      | Some userId \<Rightarrow>
          (case ObjectId e (JStr (params_id req)) of
             None \<Rightarrow> (Thrown BSONError, s)
           | Some fid \<Rightarrow>
               (case ObjectId e (JStr userId) of
                  None \<Rightarrow> (Thrown BSONError, s)
                | Some uid \<Rightarrow>
                    (case findOneAndUpdate (owned_by fid uid)
                            (\<lambda>d. d\<lparr>f_isPublic := JBool True\<rparr>) (files s) of
                       (None, _) \<Rightarrow> (not_found, s)
                     | (Some d, ds) \<Rightarrow> (Json 200 (Document d), s\<lparr>files := ds\<rparr>)))))"

definition putUnpublish :: "env \<Rightarrow> request \<Rightarrow> state \<Rightarrow> response \<times> state" where
  "putUnpublish e req s =
     (case session_user req s of
        None \<Rightarrow> (unauthorized, s)
      | Some userId \<Rightarrow>
          (case ObjectId e (JStr (params_id req)) of
             None \<Rightarrow> (Thrown BSONError, s)
           | Some fid \<Rightarrow>
               (case ObjectId e (JStr userId) of
                  None \<Rightarrow> (Thrown BSONError, s)
                | Some uid \<Rightarrow>
                    (case findOneAndUpdate (owned_by fid uid)
                            (\<lambda>d. d\<lparr>f_isPublic := JBool False\<rparr>) (files s) of
                       (None, _) \<Rightarrow> (not_found, s)
                     | (Some d, ds) \<Rightarrow> (Json 200 (Document d), s\<lparr>files := ds\<rparr>)))))"

text \<open>The two handlers differ in the value they set only; this is their common form.\<close>

definition set_isPublic :: "bool \<Rightarrow> env \<Rightarrow> request \<Rightarrow> state \<Rightarrow> response \<times> state" where
  "set_isPublic v e req s =
     (case session_user req s of
        None \<Rightarrow> (unauthorized, s)
      | Some userId \<Rightarrow>
          (case ObjectId e (JStr (params_id req)) of
             None \<Rightarrow> (Thrown BSONError, s)
           | Some fid \<Rightarrow>
               (case ObjectId e (JStr userId) of
                  None \<Rightarrow> (Thrown BSONError, s)
                | Some uid \<Rightarrow>
                    (case findOneAndUpdate (owned_by fid uid)
                            (\<lambda>d. d\<lparr>f_isPublic := JBool v\<rparr>) (files s) of
                       (None, _) \<Rightarrow> (not_found, s)
                     | (Some d, ds) \<Rightarrow> (Json 200 (Document d), s\<lparr>files := ds\<rparr>)))))"

section \<open>FilesController.getFile\<close>

text \<open>Lines 167 to 173: \<open>Some r\<close> is the answer that ends the handler. The owner is read
  only when the session resolves, and reading the owner of a document without one throws.\<close>

definition private_gate :: "request \<Rightarrow> state \<Rightarrow> file_doc \<Rightarrow> response option" where
  "private_gate req s file =
     (if \<not> truthy (f_isPublic file) then
        (case session_user req s of
           None \<Rightarrow> Some not_found
         | Some userId \<Rightarrow>
             (case f_userId file of
                None \<Rightarrow> Some (Thrown TypeError)
              | Some owner \<Rightarrow>
                  if userId \<noteq> oid_toString owner then Some not_found else None))
      else None)"

text \<open>A template literal prints \<open>undefined\<close> for a missing path.\<close>

fun template_path :: "string option \<Rightarrow> string" where
  "template_path None = ''undefined''"
| "template_path (Some p) = p"

text \<open>Lines 177 to 181. A missing path does not exist for \<open>existsSync\<close>.\<close>

definition filePath :: "file_doc \<Rightarrow> string option \<Rightarrow> string option" where
  "filePath file sz =
     (case sz of
        None \<Rightarrow> f_localPath file
      | Some w \<Rightarrow>
          if w = [] then f_localPath file
          else Some (template_path (f_localPath file) @ ''_'' @ w))"

definition setHeader_value :: "string option \<Rightarrow> content_type" where
  "setHeader_value m = (case m of None \<Rightarrow> No_mime | Some t \<Rightarrow> Mime t)"

definition getFile :: "env \<Rightarrow> request \<Rightarrow> state \<Rightarrow> response" where
  "getFile e req s =
     (case ObjectId e (JStr (params_id req)) of
        None \<Rightarrow> Thrown BSONError
      | Some fid \<Rightarrow>
          (case find (\<lambda>d. f_id d = fid) (files s) of
             None \<Rightarrow> not_found
           | Some file \<Rightarrow>
               (case private_gate req s file of
                  Some r \<Rightarrow> r
                | None \<Rightarrow>
                    if f_type file = JStr ''folder''
                    then bad_request ''A folder doesn't have content''
                    else
                      (case filePath file (query_size req) of
                         None \<Rightarrow> not_found
                       | Some p \<Rightarrow>
                           (case disk s p of
                              None \<Rightarrow> not_found
                            | Some content \<Rightarrow>
                                Piped (setHeader_value (mime_lookup e (f_name file))) content)))))"

section \<open>The worker of the queue\<close>

text \<open>
  \<open>generateThumbnail\<close>: the image at the path is read and resized, and the result is
  written beside it. The flag tells whether the promise is fulfilled.
\<close>

definition generateThumbnail ::
  "env \<Rightarrow> chance \<Rightarrow> string option \<Rightarrow> nat \<Rightarrow> state \<Rightarrow> bool \<times> state"
where
  "generateThumbnail e c path width s =
     (case path of
        None \<Rightarrow> (False, s)
      | Some p \<Rightarrow>
          (case disk s p of
             None \<Rightarrow> (False, s)
           | Some original \<Rightarrow>
               (case imageThumbnail e original width of
                  None \<Rightarrow> (False, s)
                | Some thumbnail \<Rightarrow>
                    (let thumbnailPath = p @ ''_'' @ string_of_nat width in
                     writeFile c thumbnailPath thumbnail s))))"

text \<open>
  \<open>sizes.map(size => generateThumbnail(file.localPath, size))\<close> starts one promise for
  each width, and none of them is cancelled when another fails. Each reads the primary
  blob and writes a path of its own, which is never the primary path, so running them
  one after the other reaches the same disk as any interleaving.
\<close>

fun start_all ::
  "env \<Rightarrow> chance \<Rightarrow> string option \<Rightarrow> nat list \<Rightarrow> state \<Rightarrow> bool list \<times> state"
where
  "start_all e c path [] s = ([], s)"
| "start_all e c path (w # ws) s =
     (case generateThumbnail e c path w s of
        (ok, s1) \<Rightarrow> (case start_all e c path ws s1 of (oks, s2) \<Rightarrow> (ok # oks, s2)))"

definition sizes :: "nat list" where
  "sizes = [500, 250, 100]"

datatype job_result = Completed | Failed exn

text \<open>
  \<open>Promise.all\<close> is fulfilled when every promise is, and rejected as soon as one is.
  Which of several rejections it reports depends on their timing, so the error of the
  job names none of them.
\<close>

definition Promise_all :: "bool list \<Rightarrow> job_result" where
  "Promise_all oks = (if list_all (\<lambda>ok. ok) oks then Completed else Failed ThumbnailError)"

definition process_job :: "env \<Rightarrow> chance \<Rightarrow> job \<Rightarrow> state \<Rightarrow> job_result \<times> state" where
  "process_job e c j s =
     (let userId = j_userId j; fileId = j_fileId j in
      if \<not> truthy fileId then (Failed (JobError ''Missing fileId''), s)
      else if \<not> truthy userId then (Failed (JobError ''Missing userId''), s)
      else
        (case ObjectId e fileId of
           None \<Rightarrow> (Failed BSONError, s)
         | Some fid \<Rightarrow>
             (case ObjectId e userId of
                None \<Rightarrow> (Failed BSONError, s)
              | Some uid \<Rightarrow>
                  (case find (owned_by fid uid) (files s) of
                     None \<Rightarrow> (Failed (JobError ''File not found''), s)
                   | Some file \<Rightarrow>
                       (case start_all e c (f_localPath file) sizes s of
                          (oks, s') \<Rightarrow> (Promise_all oks, s'))))))"

section \<open>A small installation\<close>

text \<open>
  Concrete libraries, users, documents and requests, on which the theorems below are
  evaluated. Identifiers are the 24 hexadecimal digits that \<open>ObjectId\<close> accepts and prints.
\<close>

definition hex24 :: "string \<Rightarrow> bool" where
  "hex24 x \<longleftrightarrow> length x = 24 \<and> list_all (\<lambda>ch. ch \<in> set ''0123456789abcdef'') x"

definition sample_ObjectId :: "jsval \<Rightarrow> oid option" where
  "sample_ObjectId v = (case v of JStr x \<Rightarrow> if hex24 x then Some (Oid x) else None | _ \<Rightarrow> None)"

definition extension :: "string \<Rightarrow> string" where
  "extension n = rev (takeWhile (\<lambda>ch. ch \<noteq> CHR ''.'') (rev n))"

definition sample_mime_lookup :: "jsval \<Rightarrow> string option" where
  "sample_mime_lookup v =
     (case v of
        JStr n \<Rightarrow> map_of [(''txt'', ''text/plain''), (''png'', ''image/png'')] (extension n)
      | _ \<Rightarrow> None)"

definition sample_parseInt :: "string option \<Rightarrow> int option" where
  "sample_parseInt q =
     (case q of None \<Rightarrow> None | Some x \<Rightarrow> map_of [(''0'', 0), (''1'', 1), (''2'', 2)] x)"

definition sample_base64 :: "jsval \<Rightarrow> bytes option" where
  "sample_base64 v =
     (case v of
        JStr x \<Rightarrow> Some (if x = ''aGk='' then ''hi'' else [])
      | JObject \<Rightarrow> Some []
      | _ \<Rightarrow> None)"

definition sample_env :: env where
  "sample_env = \<lparr>ObjectId = sample_ObjectId, parseInt = sample_parseInt,
                  mime_lookup = sample_mime_lookup, Buffer_from_base64 = sample_base64,
                  imageThumbnail = (\<lambda>original width.
                     if original = [] then None else Some (string_of_nat width @ '':'' @ original)),
                  FOLDER_PATH = None\<rparr>"

definition alice :: string where
  "alice = ''aaaaaaaaaaaaaaaaaaaaaaaa''"

definition bob :: string where
  "bob = ''bbbbbbbbbbbbbbbbbbbbbbbb''"

definition folder1 :: file_doc where
  "folder1 = \<lparr>f_id = Oid ''f00000000000000000000001'', f_userId = Some (Oid alice),
               f_name = JStr ''docs'', f_type = JStr ''folder'', f_isPublic = JBool False,
               f_parentId = JNum 0, f_localPath = None\<rparr>"

definition file2 :: file_doc where
  "file2 = \<lparr>f_id = Oid ''f00000000000000000000002'', f_userId = Some (Oid alice),
             f_name = JStr ''notes.txt'', f_type = JStr ''file'', f_isPublic = JBool False,
             f_parentId = JNum 0, f_localPath = Some ''/tmp/files_manager/u2''\<rparr>"

definition image3 :: file_doc where
  "image3 = \<lparr>f_id = Oid ''f00000000000000000000003'', f_userId = Some (Oid alice),
              f_name = JStr ''photo.png'', f_type = JStr ''image'', f_isPublic = JBool True,
              f_parentId = JStr ''f00000000000000000000001'',
              f_localPath = Some ''/tmp/files_manager/u3''\<rparr>"

definition blob5 :: file_doc where
  "blob5 = \<lparr>f_id = Oid ''f00000000000000000000005'', f_userId = Some (Oid bob),
             f_name = JStr ''dump.zzz'', f_type = JStr ''file'', f_isPublic = JBool True,
             f_parentId = JNum 0, f_localPath = Some ''/tmp/files_manager/u5''\<rparr>"

definition sample_state :: state where
  "sample_state = \<lparr>redis = [''auth_ta'' \<mapsto> alice, ''auth_tb'' \<mapsto> bob],
                    users = [Oid alice, Oid bob],
                    files = [folder1, file2, image3, blob5],
                    disk = [''/tmp/files_manager/u2'' \<mapsto> ''remember'',
                            ''/tmp/files_manager/u3'' \<mapsto> ''pixels'',
                            ''/tmp/files_manager/u3_bogus'' \<mapsto> ''anything'',
                            ''/tmp/files_manager/u5'' \<mapsto> ''raw''],
                    fileQueue = []\<rparr>"

definition sample_chance :: chance where
  "sample_chance = \<lparr>uuid = ''u4'', insertedId = Oid ''f00000000000000000000004'',
                     writeFile_outcome = (\<lambda>p. Written), insertOne_rejects = False\<rparr>"

definition chance_500_rejected :: chance where
  "chance_500_rejected =
     sample_chance\<lparr>writeFile_outcome :=
       (\<lambda>q. if q = ''/tmp/files_manager/u3_500'' then Rejected_on_open else Written)\<rparr>"

definition chance_write_rejected :: chance where
  "chance_write_rejected = sample_chance\<lparr>writeFile_outcome := (\<lambda>q. Rejected_after 1)\<rparr>"

definition chance_insert_rejected :: chance where
  "chance_insert_rejected = sample_chance\<lparr>insertOne_rejects := True\<rparr>"

definition request0 :: request where
  "request0 = \<lparr>x_token = None, params_id = [], query_size = None, query_parentId = None,
                query_page = None, body_name = JUndefined, body_type = JUndefined,
                body_parentId = JUndefined, body_isPublic = JUndefined,
                body_data = JUndefined\<rparr>"

text \<open>
  A client that sends one upload after the other, each with what its run draws, and the
  \<open>i\<close>-th of the uploads by which Alice stores small files without naming a parent.
\<close>

definition upload_no :: "nat \<Rightarrow> chance \<times> request" where
  "upload_no i =
     (\<lparr>uuid = ''n'' @ string_of_nat i, insertedId = Oid (''e'' @ string_of_nat i),
       writeFile_outcome = (\<lambda>p. Written), insertOne_rejects = False\<rparr>,
      request0\<lparr>x_token := Some ''ta'', body_name := JStr (''file'' @ string_of_nat i),
               body_type := JStr ''file'', body_data := JStr ''aGk=''\<rparr>)"

definition run_uploads :: "env \<Rightarrow> (chance \<times> request) list \<Rightarrow> state \<Rightarrow> state" where
  "run_uploads e ups s = fold (\<lambda>(c, req) s1. snd (postUpload e c req s1)) ups s"

section \<open>Auxiliary facts\<close>

lemmas sample_defs =
  sample_env_def sample_state_def sample_chance_def request0_def sample_ObjectId_def
  hex24_def sample_mime_lookup_def sample_parseInt_def sample_base64_def extension_def
  alice_def bob_def folder1_def file2_def image3_def blob5_def chance_500_rejected_def
  chance_insert_rejected_def chance_write_rejected_def

lemma validate_cases:
  "validate name type data =
     (if \<not> truthy name then Some ''Missing name''
      else if type \<notin> set allowed_types then Some ''Missing type''
      else if \<not> truthy data \<and> type \<noteq> JStr ''folder'' then Some ''Missing data''
      else None)"
  by (auto simp: validate_def allowed_types_def)


lemma check_parent_cases:
  "check_parent e parentId s = Some r \<Longrightarrow> (\<exists>msg. r = Json 400 (Error msg)) \<or> r = Thrown BSONError"
  by (auto simp: check_parent_def bad_request_def split: if_splits option.splits)

lemma postUpload_cases:
  "postUpload e c req s = (r, s') \<Longrightarrow>
     (s' = s \<and> ((\<exists>n msg. r = Json n (Error msg)) \<or> r = Thrown BSONError))
   \<or> (\<exists>uid. store_upload e c uid (body_name req) (body_type req)
                    (js_default (body_isPublic req) (JBool False))
                    (js_default (body_parentId req) (JNum 0)) (body_data req) s = (r, s'))"
  by (auto simp: postUpload_def unauthorized_def bad_request_def Let_def
           dest: check_parent_cases split: option.splits if_splits)

lemma putPublish_eq: "putPublish e req s = set_isPublic True e req s"
  by (simp add: putPublish_def set_isPublic_def)

lemma putUnpublish_eq: "putUnpublish e req s = set_isPublic False e req s"
  by (simp add: putUnpublish_def set_isPublic_def)

lemma findOneAndUpdate_none:
  "\<forall>d\<in>set ds. \<not> flt d \<Longrightarrow> findOneAndUpdate flt upd ds = (None, ds)"
  by (induction ds) auto

lemma findOneAndUpdate_some:
  "\<exists>d\<in>set ds. flt d \<Longrightarrow>
     \<exists>d ds'. findOneAndUpdate flt upd ds = (Some (upd d), ds') \<and> flt d \<and> upd d \<in> set ds'"
proof (induction ds)
  case Nil
  then show ?case by simp
next
  case (Cons a ds)
  show ?case
  proof (cases "flt a")
    case True
    then show ?thesis by auto
  next
    case False
    with Cons.prems have "\<exists>d\<in>set ds. flt d" by auto
    from Cons.IH [OF this] obtain d ds' where
      "findOneAndUpdate flt upd ds = (Some (upd d), ds')" "flt d" "upd d \<in> set ds'"
      by blast
    with False show ?thesis by auto
  qed
qed

lemma findOneAndUpdate_again:
  assumes "\<And>d. flt (upd d) = flt d" and "\<And>d. upd (upd d) = upd d"
  shows "findOneAndUpdate flt upd (snd (findOneAndUpdate flt upd ds)) = findOneAndUpdate flt upd ds"
  by (induction ds) (auto simp: assms split: prod.splits)

lemma owned_by_isPublic [simp]: "owned_by fid uid (d\<lparr>f_isPublic := v\<rparr>) = owned_by fid uid d"
  by (simp add: owned_by_def)

lemma session_user_files [simp]: "session_user req (s\<lparr>files := ds\<rparr>) = session_user req s"
  by (simp add: session_user_def split: option.splits)

lemma set_isPublic_resolved:
  assumes "session_user req s = Some userId"
    and "ObjectId e (JStr (params_id req)) = Some fid"
    and "ObjectId e (JStr userId) = Some uid"
  shows "set_isPublic v e req s =
           (case findOneAndUpdate (owned_by fid uid) (\<lambda>d. d\<lparr>f_isPublic := JBool v\<rparr>) (files s) of
              (None, ds) \<Rightarrow> (not_found, s)
            | (Some d, ds) \<Rightarrow> (Json 200 (Document d), s\<lparr>files := ds\<rparr>))"
  using assms by (simp add: set_isPublic_def)

lemma set_isPublic_unresolved:
  assumes "session_user req s = None \<or> ObjectId e (JStr (params_id req)) = None
           \<or> (\<exists>userId. session_user req s = Some userId \<and> ObjectId e (JStr userId) = None)"
  shows "snd (set_isPublic v e req s) = s"
  using assms by (auto simp: set_isPublic_def split: option.splits)

lemma set_isPublic_again:
  "set_isPublic v e req (snd (set_isPublic v e req s)) = set_isPublic v e req s"
proof (cases "session_user req s = None \<or> ObjectId e (JStr (params_id req)) = None
           \<or> (\<exists>userId. session_user req s = Some userId \<and> ObjectId e (JStr userId) = None)")
  case True
  then show ?thesis by (simp add: set_isPublic_unresolved)
next
  case False
  then obtain userId fid uid where res: "session_user req s = Some userId"
      "ObjectId e (JStr (params_id req)) = Some fid" "ObjectId e (JStr userId) = Some uid"
    by auto
  let ?upd = "\<lambda>d. d\<lparr>f_isPublic := JBool v\<rparr>"
  obtain r ds where fu: "findOneAndUpdate (owned_by fid uid) ?upd (files s) = (r, ds)"
    by (cases "findOneAndUpdate (owned_by fid uid) ?upd (files s)")
  have again: "findOneAndUpdate (owned_by fid uid) ?upd ds = (r, ds)"
    using findOneAndUpdate_again [of "owned_by fid uid" ?upd "files s"] fu by simp
  show ?thesis
  proof (cases r)
    case None
    with fu res show ?thesis by (simp add: set_isPublic_resolved)
  next
    case (Some d)
    with fu res have first: "set_isPublic v e req s = (Json 200 (Document d), s\<lparr>files := ds\<rparr>)"
      by (simp add: set_isPublic_resolved)
    have "session_user req (s\<lparr>files := ds\<rparr>) = Some userId"
      using res by simp
    from set_isPublic_resolved [OF this res(2,3), of v] again Some
    have "set_isPublic v e req (s\<lparr>files := ds\<rparr>) = (Json 200 (Document d), s\<lparr>files := ds\<rparr>)"
      by simp
    with first show ?thesis by simp
  qed
qed

lemma set_isPublic_owned:
  assumes "session_user req s = Some userId"
    and "ObjectId e (JStr (params_id req)) = Some fid"
    and "ObjectId e (JStr userId) = Some uid"
    and "\<exists>d\<in>set (files s). owned_by fid uid d"
  shows "\<exists>d s'. set_isPublic v e req s = (Json 200 (Document d), s')
           \<and> owned_by fid uid d \<and> f_isPublic d = JBool v
           \<and> session_user req s' = Some userId \<and> (\<exists>d\<in>set (files s'). owned_by fid uid d)"
proof -
  let ?upd = "\<lambda>d. d\<lparr>f_isPublic := JBool v\<rparr>"
  from findOneAndUpdate_some [OF assms(4), of ?upd] obtain d ds where
    fu: "findOneAndUpdate (owned_by fid uid) ?upd (files s) = (Some (?upd d), ds)"
    and d: "owned_by fid uid d" "?upd d \<in> set ds"
    by blast
  have "set_isPublic v e req s = (Json 200 (Document (?upd d)), s\<lparr>files := ds\<rparr>)"
    using fu assms(1-3) by (simp add: set_isPublic_resolved)
  moreover have "\<exists>x\<in>set (files (s\<lparr>files := ds\<rparr>)). owned_by fid uid x"
    using d by (auto intro: bexI [of _ "?upd d"])
  ultimately show ?thesis
    using d assms(1) by (intro exI [of _ "?upd d"] exI [of _ "s\<lparr>files := ds\<rparr>"]) simp
qed

lemma set_isPublic_sequence:
  assumes "ObjectId e (JStr (params_id req)) = Some fid"
    and "ObjectId e (JStr userId) = Some uid"
  shows "session_user req s = Some userId \<Longrightarrow> \<exists>d\<in>set (files s). owned_by fid uid d \<Longrightarrow>
         vs \<noteq> [] \<Longrightarrow>
         \<exists>d s'. fold (\<lambda>v rs. (if v then putPublish else putUnpublish) e req (snd rs)) vs (ini, s)
                   = (Json 200 (Document d), s')
               \<and> owned_by fid uid d \<and> f_isPublic d = JBool (last vs)"
proof (induction vs arbitrary: ini s)
  case Nil
  then show ?case by simp
next
  case (Cons v vs)
  from set_isPublic_owned [OF Cons.prems(1) assms Cons.prems(2), of v]
  obtain d s1 where step: "set_isPublic v e req s = (Json 200 (Document d), s1)"
    and d: "owned_by fid uid d" "f_isPublic d = JBool v"
    and inv: "session_user req s1 = Some userId" "\<exists>d\<in>set (files s1). owned_by fid uid d"
    by blast
  have unfold_step: "(if v then putPublish else putUnpublish) e req s = (Json 200 (Document d), s1)"
    using step by (cases v) (simp_all add: putPublish_eq putUnpublish_eq)
  show ?case
  proof (cases "vs = []")
    case True
    with unfold_step d show ?thesis by simp
  next
    case False
    from Cons.IH [OF inv False, of "Json 200 (Document d)"] unfold_step False
    show ?thesis by simp
  qed
qed

lemma string_of_nat_sizes:
  "string_of_nat 500 = ''500''" "string_of_nat 250 = ''250''" "string_of_nat 100 = ''100''"
  by (simp_all add: string_of_nat.simps digit_char_def)

lemma generateThumbnail_frame:
  "q \<noteq> p @ ''_'' @ string_of_nat w \<Longrightarrow>
   disk (snd (generateThumbnail e c (Some p) w s1)) q = disk s1 q"
  by (simp add: generateThumbnail_def writeFile_def Let_def
           split: option.splits write_outcome.splits)

lemma generateThumbnail_flag:
  "disk s1 p = disk s p \<Longrightarrow>
   fst (generateThumbnail e c (Some p) w s1) = fst (generateThumbnail e c (Some p) w s)"
  by (simp add: generateThumbnail_def writeFile_def Let_def
           split: option.splits write_outcome.splits)

lemma generateThumbnail_own:
  "disk s1 p = disk s p \<Longrightarrow> disk s1 q = disk s q \<Longrightarrow>
   disk (snd (generateThumbnail e c (Some p) w s1)) q
     = disk (snd (generateThumbnail e c (Some p) w s)) q"
  by (simp add: generateThumbnail_def writeFile_def Let_def
           split: option.splits write_outcome.splits)

lemma start_all_None: "start_all e c None ws s = (map (\<lambda>w. False) ws, s)"
  by (induction ws) (simp_all add: generateThumbnail_def)

lemma start_all_Cons_fst:
  "fst (start_all e c path (w # ws) s)
     = fst (generateThumbnail e c path w s)
       # fst (start_all e c path ws (snd (generateThumbnail e c path w s)))"
  by (simp split: prod.splits)

lemma start_all_Cons_snd:
  "snd (start_all e c path (w # ws) s)
     = snd (start_all e c path ws (snd (generateThumbnail e c path w s)))"
  by (simp split: prod.splits)

lemma start_all_frame:
  "q \<notin> (\<lambda>w. p @ ''_'' @ string_of_nat w) ` set ws \<Longrightarrow>
   disk (snd (start_all e c (Some p) ws s1)) q = disk s1 q"
  by (induction ws arbitrary: s1)
     (simp_all add: start_all_Cons_snd generateThumbnail_frame del: start_all.simps(2))

lemma primary_not_thumbnail: "p \<notin> (\<lambda>w. p @ ''_'' @ string_of_nat w) ` set ws"
  by auto

lemma start_all_flags:
  "disk s1 p = disk s p \<Longrightarrow>
   fst (start_all e c (Some p) ws s1) = map (\<lambda>w. fst (generateThumbnail e c (Some p) w s)) ws"
proof (induction ws arbitrary: s1)
  case Nil
  then show ?case by simp
next
  case (Cons w ws)
  have "disk (snd (generateThumbnail e c (Some p) w s1)) p = disk s p"
    using Cons.prems by (simp add: generateThumbnail_frame)
  from Cons.IH [OF this] Cons.prems show ?case
    by (simp add: start_all_Cons_fst generateThumbnail_flag [of s1 p s] del: start_all.simps(2))
qed

lemma start_all_own:
  "disk s1 p = disk s p \<Longrightarrow> distinct (map (\<lambda>w. p @ ''_'' @ string_of_nat w) ws) \<Longrightarrow>
   \<forall>w\<in>set ws. disk s1 (p @ ''_'' @ string_of_nat w) = disk s (p @ ''_'' @ string_of_nat w) \<Longrightarrow>
   \<forall>w\<in>set ws. disk (snd (start_all e c (Some p) ws s1)) (p @ ''_'' @ string_of_nat w)
               = disk (snd (generateThumbnail e c (Some p) w s)) (p @ ''_'' @ string_of_nat w)"
proof (induction ws arbitrary: s1)
  case Nil
  then show ?case by simp
next
  case (Cons w ws)
  let ?tp = "\<lambda>w. p @ ''_'' @ string_of_nat w"
  let ?s2 = "snd (generateThumbnail e c (Some p) w s1)"
  have run: "snd (start_all e c (Some p) (w # ws) s1) = snd (start_all e c (Some p) ws ?s2)"
    by (rule start_all_Cons_snd)
  have p2: "disk ?s2 p = disk s p"
    using Cons.prems(1) by (simp add: generateThumbnail_frame)
  have fresh: "?tp w \<notin> ?tp ` set ws"
    using Cons.prems(2) by simp
  have rest: "\<forall>v\<in>set ws. disk ?s2 (?tp v) = disk s (?tp v)"
  proof
    fix v assume v: "v \<in> set ws"
    with fresh have "?tp v \<noteq> ?tp w" by (metis image_eqI)
    then have "disk ?s2 (?tp v) = disk s1 (?tp v)"
      by (rule generateThumbnail_frame)
    with Cons.prems(3) v show "disk ?s2 (?tp v) = disk s (?tp v)" by simp
  qed
  have dist: "distinct (map ?tp ws)"
    using Cons.prems(2) by simp
  have tail: "\<forall>v\<in>set ws. disk (snd (start_all e c (Some p) ws ?s2)) (?tp v)
               = disk (snd (generateThumbnail e c (Some p) v s)) (?tp v)"
    by (rule Cons.IH [OF p2 dist rest])
  have head: "disk (snd (start_all e c (Some p) ws ?s2)) (?tp w)
               = disk (snd (generateThumbnail e c (Some p) w s)) (?tp w)"
  proof -
    have "disk (snd (start_all e c (Some p) ws ?s2)) (?tp w) = disk ?s2 (?tp w)"
      using fresh by (rule start_all_frame)
    also have "\<dots> = disk (snd (generateThumbnail e c (Some p) w s)) (?tp w)"
      using Cons.prems(1,3) by (intro generateThumbnail_own) simp_all
    finally show ?thesis .
  qed
  show ?case
    using head tail by (simp only: run) simp
qed

lemma sizes_distinct_paths: "distinct (map (\<lambda>w. p @ ''_'' @ string_of_nat w) sizes)"
  by (simp add: sizes_def string_of_nat_sizes)

lemma process_job_resolved:
  assumes "truthy (j_fileId j)" and "truthy (j_userId j)"
    and "ObjectId e (j_fileId j) = Some fid" and "ObjectId e (j_userId j) = Some uid"
    and "find (owned_by fid uid) (files s) = Some fdoc"
  shows "process_job e c j s =
           (Promise_all (fst (start_all e c (f_localPath fdoc) sizes s)),
            snd (start_all e c (f_localPath fdoc) sizes s))"
  using assms by (simp add: process_job_def Let_def split: prod.splits)

lemma store_upload_files:
  "store_upload e c uid name type isPublic parentId data s = (r, s') \<Longrightarrow>
     redis s' = redis s
     \<and> (files s' = files s \<or> (\<exists>d. files s' = files s @ [d] \<and> f_parentId d = parentId))"
  by (auto simp: store_upload_def Let_def insertOne_def writeFile_def queue_add_def
           split: if_splits option.splits write_outcome.splits bool.splits)

lemma postUpload_files:
  assumes "postUpload e c req s = (r, s')"
  shows "redis s' = redis s
     \<and> (files s' = files s
        \<or> (\<exists>d. files s' = files s @ [d] \<and> f_parentId d = js_default (body_parentId req) (JNum 0)))"
  using postUpload_cases [OF assms] by (auto dest: store_upload_files)

lemma getIndex_cong:
  assumes "redis s' = redis s"
    and "\<And>uid p. filter (match_stage uid p) (files s') = filter (match_stage uid p) (files s)"
  shows "getIndex e q s' = getIndex e q s"
  using assms by (simp add: getIndex_def session_user_def Let_def split: option.splits)

lemma postUpload_root_unlisted:
  assumes "postUpload e c req s = (r, s')"
    and "body_parentId req = JUndefined \<or> body_parentId req = JNum 0"
  shows "getIndex e' q s' = getIndex e' q s"
proof (rule getIndex_cong)
  from postUpload_files [OF assms(1)] show "redis s' = redis s" by simp
next
  fix uid p
  have "js_default (body_parentId req) (JNum 0) = JNum 0"
    using assms(2) by (auto simp: js_default_def)
  with postUpload_files [OF assms(1)]
  show "filter (match_stage uid p) (files s') = filter (match_stage uid p) (files s)"
    by (auto simp: match_stage_def)
qed

lemma upload_no_stored:
  assumes "redis s ''auth_ta'' = Some alice" and "Oid alice \<in> set (users s)"
  shows "redis (snd (postUpload sample_env (fst (upload_no i)) (snd (upload_no i)) s)) = redis s
       \<and> users (snd (postUpload sample_env (fst (upload_no i)) (snd (upload_no i)) s)) = users s
       \<and> length (files (snd (postUpload sample_env (fst (upload_no i)) (snd (upload_no i)) s)))
           = Suc (length (files s))"
  using assms
  by (simp add: upload_no_def postUpload_def session_user_def validate_cases allowed_types_def
                check_parent_def js_default_def store_upload_def insertOne_def writeFile_def
                Let_def request0_def sample_env_def sample_ObjectId_def hex24_def
                sample_base64_def alice_def)

lemma run_uploads_length:
  "redis s ''auth_ta'' = Some alice \<Longrightarrow> Oid alice \<in> set (users s) \<Longrightarrow>
   length (files (run_uploads sample_env (map upload_no ns) s)) = length (files s) + length ns"
proof (induction ns arbitrary: s)
  case Nil
  then show ?case by (simp add: run_uploads_def)
next
  case (Cons n ns)
  let ?s1 = "snd (postUpload sample_env (fst (upload_no n)) (snd (upload_no n)) s)"
  note step = upload_no_stored [OF Cons.prems, of n]
  have "run_uploads sample_env (map upload_no (n # ns)) s
          = run_uploads sample_env (map upload_no ns) ?s1"
    by (simp add: run_uploads_def case_prod_beta)
  moreover have "length (files (run_uploads sample_env (map upload_no ns) ?s1))
                   = length (files ?s1) + length ns"
    using Cons.prems step by (intro Cons.IH) simp_all
  ultimately show ?case
    using step by simp
qed

section \<open>Fetching the content of a private file\<close>

text \<open>
  Claim C1 fails on the handler for an id that is no identifier. \<open>getFile\<close> hands the id
  of the request to \<open>ObjectId\<close> before it looks anything up, and catches nothing: for such
  an id, which names no document, the handler throws and sends no 404. For an id that is
  an identifier the handler does what the claim says. If no document has that id, the
  answer is 404 \<open>Not found\<close>. If a document has it and its \<open>isPublic\<close> is false (or any
  other falsy value), and the request carries no token, or its token has no session, or
  the session names a user other than the document's owner, the answer is the very same
  404 \<open>Not found\<close>, hence never a 401.
\<close>

theorem getFile_private_not_found:
  "(case ObjectId e (JStr (params_id req)) of
      None \<Rightarrow> getFile e req s = Thrown BSONError
    | Some fid \<Rightarrow>
        (case find (\<lambda>d. f_id d = fid) (files s) of
           None \<Rightarrow> getFile e req s = Json 404 (Error ''Not found'')
         | Some file \<Rightarrow>
             \<not> truthy (f_isPublic file) \<longrightarrow>
             (x_token req = None
              \<or> (\<exists>t. x_token req = Some t \<and> redis s (''auth_'' @ t) = None)
              \<or> (\<exists>t u owner. x_token req = Some t \<and> redis s (''auth_'' @ t) = Some u
                    \<and> f_userId file = Some owner \<and> u \<noteq> oid_toString owner)) \<longrightarrow>
             getFile e req s = Json 404 (Error ''Not found'')))"
  by (auto simp: getFile_def private_gate_def session_user_def not_found_def
           split: option.splits if_splits)

text \<open>
  Bob asks for the content of \<open>nonexistent\<close>, the id by which the tests of the repository
  ask the other handlers for a file that does not exist; then for Alice's private file,
  and for a well-formed id that no document has.
\<close>

theorem getFile_private_not_found_witness:
  "ObjectId sample_env (JStr ''nonexistent'') = None
   \<and> getFile sample_env (request0\<lparr>params_id := ''nonexistent'', x_token := Some ''tb''\<rparr>)
        sample_state = Thrown BSONError
   \<and> ObjectId sample_env (JStr ''f00000000000000000000002'') = Some (Oid ''f00000000000000000000002'')
   \<and> find (\<lambda>d. f_id d = Oid ''f00000000000000000000002'') (files sample_state) = Some file2
   \<and> \<not> truthy (f_isPublic file2)
   \<and> redis sample_state (''auth_'' @ ''tb'') = Some bob
   \<and> f_userId file2 = Some (Oid alice) \<and> bob \<noteq> oid_toString (Oid alice)
   \<and> getFile sample_env (request0\<lparr>params_id := ''f00000000000000000000002'', x_token := Some ''tb''\<rparr>)
        sample_state = Json 404 (Error ''Not found'')
   \<and> getFile sample_env (request0\<lparr>params_id := ''f00000000000000000000009'', x_token := Some ''tb''\<rparr>)
        sample_state = Json 404 (Error ''Not found'')"
  using getFile_private_not_found
          [of sample_env "request0\<lparr>params_id := ''nonexistent'', x_token := Some ''tb''\<rparr>"
              sample_state]
        getFile_private_not_found
          [of sample_env "request0\<lparr>params_id := ''f00000000000000000000002'', x_token := Some ''tb''\<rparr>"
              sample_state]
        getFile_private_not_found
          [of sample_env "request0\<lparr>params_id := ''f00000000000000000000009'', x_token := Some ''tb''\<rparr>"
              sample_state]
  by (simp add: sample_defs)

section \<open>Validation of an upload\<close>

text \<open>
  Claim C5 fails on the handler for a parent that is no identifier. For a request of
  \<open>postUpload\<close> whose token resolves to a registered user, the checks run in the order
  name, type, data, parent, and the first that fails decides: a missing (falsy) name
  gives 400 \<open>Missing name\<close>; with a name, a type other than \<open>folder\<close>, \<open>file\<close> and \<open>image\<close>
  gives 400 \<open>Missing type\<close>; with a name and the type \<open>file\<close> or \<open>image\<close>, missing data
  gives 400 \<open>Missing data\<close>. With these three in order and a parent other than the
  number \<open>0\<close>, the parent is handed to \<open>ObjectId\<close> first and nothing is caught: for a parent
  that is no identifier, such as the string \<open>'0'\<close> by which \<open>getIndex\<close> names the root, the
  handler throws and sends no 400, although no document has that parent. For a parent
  that is an identifier the answer is 400 \<open>Parent not found\<close> when no document has that id
  and 400 \<open>Parent is not a folder\<close> when the document found is no folder. In each case
  the state is unchanged: nothing is persisted.
\<close>

theorem postUpload_validation:
  assumes "session_user req s = Some userId"
    and "ObjectId e (JStr userId) = Some uid"
    and "uid \<in> set (users s)"
  shows "(\<not> truthy (body_name req) \<longrightarrow>
            postUpload e c req s = (Json 400 (Error ''Missing name''), s))
       \<and> (truthy (body_name req)
            \<and> body_type req \<notin> {JStr ''folder'', JStr ''file'', JStr ''image''} \<longrightarrow>
            postUpload e c req s = (Json 400 (Error ''Missing type''), s))
       \<and> (truthy (body_name req) \<and> body_type req \<in> {JStr ''file'', JStr ''image''}
            \<and> \<not> truthy (body_data req) \<longrightarrow>
            postUpload e c req s = (Json 400 (Error ''Missing data''), s))
       \<and> (truthy (body_name req)
            \<and> (body_type req = JStr ''folder''
                \<or> body_type req \<in> {JStr ''file'', JStr ''image''} \<and> truthy (body_data req))
            \<and> body_parentId req \<notin> {JUndefined, JNum 0} \<longrightarrow>
            (case ObjectId e (body_parentId req) of
               None \<Rightarrow> postUpload e c req s = (Thrown BSONError, s)
             | Some pid \<Rightarrow>
                 (case find (\<lambda>d. f_id d = pid) (files s) of
                    None \<Rightarrow> postUpload e c req s = (Json 400 (Error ''Parent not found''), s)
                  | Some parent \<Rightarrow>
                      f_type parent \<noteq> JStr ''folder'' \<longrightarrow>
                      postUpload e c req s = (Json 400 (Error ''Parent is not a folder''), s))))"
  using assms
  by (auto simp: postUpload_def validate_cases allowed_types_def bad_request_def
                 check_parent_def js_default_def Let_def
           split: option.splits)

text \<open>Alice sends seven requests, one for each answer; the parents of the last two are
  no identifiers.\<close>

theorem postUpload_validation_witness:
  "session_user (request0\<lparr>x_token := Some ''ta''\<rparr>) sample_state = Some alice
   \<and> ObjectId sample_env (JStr alice) = Some (Oid alice)
   \<and> Oid alice \<in> set (users sample_state)
   \<and> postUpload sample_env sample_chance (request0\<lparr>x_token := Some ''ta''\<rparr>) sample_state
       = (Json 400 (Error ''Missing name''), sample_state)
   \<and> postUpload sample_env sample_chance
        (request0\<lparr>x_token := Some ''ta'', body_name := JStr ''a'', body_type := JStr ''link''\<rparr>)
        sample_state
       = (Json 400 (Error ''Missing type''), sample_state)
   \<and> postUpload sample_env sample_chance
        (request0\<lparr>x_token := Some ''ta'', body_name := JStr ''a'', body_type := JStr ''file''\<rparr>)
        sample_state
       = (Json 400 (Error ''Missing data''), sample_state)
   \<and> postUpload sample_env sample_chance
        (request0\<lparr>x_token := Some ''ta'', body_name := JStr ''a'', body_type := JStr ''file'',
                   body_data := JStr ''aGk='',
                   body_parentId := JStr ''f00000000000000000000009''\<rparr>)
        sample_state
       = (Json 400 (Error ''Parent not found''), sample_state)
   \<and> postUpload sample_env sample_chance
        (request0\<lparr>x_token := Some ''ta'', body_name := JStr ''a'', body_type := JStr ''file'',
                   body_data := JStr ''aGk='',
                   body_parentId := JStr ''f00000000000000000000002''\<rparr>)
        sample_state
       = (Json 400 (Error ''Parent is not a folder''), sample_state)
   \<and> postUpload sample_env sample_chance
        (request0\<lparr>x_token := Some ''ta'', body_name := JStr ''a'', body_type := JStr ''file'',
                   body_data := JStr ''aGk='', body_parentId := JStr ''0''\<rparr>)
        sample_state
       = (Thrown BSONError, sample_state)
   \<and> postUpload sample_env sample_chance
        (request0\<lparr>x_token := Some ''ta'', body_name := JStr ''a'', body_type := JStr ''file'',
                   body_data := JStr ''aGk='', body_parentId := JStr ''abc''\<rparr>)
        sample_state
       = (Thrown BSONError, sample_state)"
  using postUpload_validation
          [where req = "request0\<lparr>x_token := Some ''ta'', body_name := JStr ''a'', body_type := JStr ''file'',
                   body_data := JStr ''aGk='', body_parentId := JStr ''0''\<rparr>"
             and s = sample_state and userId = alice and e = sample_env and uid = "Oid alice"
             and c = sample_chance]
        postUpload_validation
          [where req = "request0\<lparr>x_token := Some ''ta'', body_name := JStr ''a'', body_type := JStr ''file'',
                   body_data := JStr ''aGk='', body_parentId := JStr ''abc''\<rparr>"
             and s = sample_state and userId = alice and e = sample_env and uid = "Oid alice"
             and c = sample_chance]
        postUpload_validation
          [where req = "request0\<lparr>x_token := Some ''ta''\<rparr>"
             and s = sample_state and userId = alice and e = sample_env and uid = "Oid alice"
             and c = sample_chance]
        postUpload_validation
          [where req = "request0\<lparr>x_token := Some ''ta'', body_name := JStr ''a'', body_type := JStr ''link''\<rparr>"
             and s = sample_state and userId = alice and e = sample_env and uid = "Oid alice"
             and c = sample_chance]
        postUpload_validation
          [where req = "request0\<lparr>x_token := Some ''ta'', body_name := JStr ''a'', body_type := JStr ''file''\<rparr>"
             and s = sample_state and userId = alice and e = sample_env and uid = "Oid alice"
             and c = sample_chance]
        postUpload_validation
          [where req = "request0\<lparr>x_token := Some ''ta'', body_name := JStr ''a'', body_type := JStr ''file'',
                   body_data := JStr ''aGk='',
                   body_parentId := JStr ''f00000000000000000000009''\<rparr>"
             and s = sample_state and userId = alice and e = sample_env and uid = "Oid alice"
             and c = sample_chance]
        postUpload_validation
          [where req = "request0\<lparr>x_token := Some ''ta'', body_name := JStr ''a'', body_type := JStr ''file'',
                   body_data := JStr ''aGk='',
                   body_parentId := JStr ''f00000000000000000000002''\<rparr>"
             and s = sample_state and userId = alice and e = sample_env and uid = "Oid alice"
             and c = sample_chance]
  by (simp add: sample_defs session_user_def)

section \<open>Creating a folder\<close>

text \<open>
  Claim C6. Whenever \<open>postUpload\<close> answers 201 to a request of type \<open>folder\<close>, exactly one
  document has been added, with the id of the answer and without a \<open>localPath\<close>, and
  nothing else has changed (no blob is written); the answer itself has no field for a
  path. The document and the answer agree on \<open>isPublic\<close>, which is \<open>false\<close> when the
  request did not give it.
\<close>

theorem folder_create_no_blob:
  assumes "postUpload e c req s = (Json 201 (Created r), s')"
    and "body_type req = JStr ''folder''"
  shows "\<exists>d. s' = s\<lparr>files := files s @ [d]\<rparr> \<and> f_id d = r_id r \<and> f_localPath d = None
           \<and> f_isPublic d = r_isPublic r
           \<and> (body_isPublic req = JUndefined \<longrightarrow> r_isPublic r = JBool False)"
  using assms
  by (auto simp: postUpload_def store_upload_def unauthorized_def bad_request_def
                 check_parent_def js_default_def insertOne_def Let_def
           split: option.splits if_splits)

text \<open>Alice creates a folder inside her folder.\<close>

theorem folder_create_no_blob_witness:
  "postUpload sample_env sample_chance
     (request0\<lparr>x_token := Some ''ta'', body_name := JStr ''sub'', body_type := JStr ''folder'',
                body_parentId := JStr ''f00000000000000000000001''\<rparr>) sample_state
   = (Json 201 (Created \<lparr>r_id = Oid ''f00000000000000000000004'', r_userId = Oid alice,
                          r_name = JStr ''sub'', r_type = JStr ''folder'',
                          r_isPublic = JBool False,
                          r_parentId = JStr ''f00000000000000000000001''\<rparr>),
      sample_state\<lparr>files := files sample_state @
         [\<lparr>f_id = Oid ''f00000000000000000000004'', f_userId = Some (Oid alice),
           f_name = JStr ''sub'', f_type = JStr ''folder'', f_isPublic = JBool False,
           f_parentId = JStr ''f00000000000000000000001'', f_localPath = None\<rparr>]\<rparr>)
   \<and> (\<exists>d :: file_doc. f_id d = Oid ''f00000000000000000000004'' \<and> f_localPath d = None
          \<and> f_isPublic d = JBool False)"
proof -
  let ?req = "request0\<lparr>x_token := Some ''ta'', body_name := JStr ''sub'',
                body_type := JStr ''folder'',
                body_parentId := JStr ''f00000000000000000000001''\<rparr>"
  let ?r = "\<lparr>r_id = Oid ''f00000000000000000000004'', r_userId = Oid alice,
             r_name = JStr ''sub'', r_type = JStr ''folder'', r_isPublic = JBool False,
             r_parentId = JStr ''f00000000000000000000001''\<rparr>"
  let ?d = "\<lparr>f_id = Oid ''f00000000000000000000004'', f_userId = Some (Oid alice),
             f_name = JStr ''sub'', f_type = JStr ''folder'', f_isPublic = JBool False,
             f_parentId = JStr ''f00000000000000000000001'', f_localPath = None\<rparr>"
  have run: "postUpload sample_env sample_chance ?req sample_state
             = (Json 201 (Created ?r), sample_state\<lparr>files := files sample_state @ [?d]\<rparr>)"
    by (simp add: sample_defs postUpload_def session_user_def validate_cases allowed_types_def
                  check_parent_def js_default_def store_upload_def insertOne_def Let_def)
  have folder: "body_type ?req = JStr ''folder''"
    by simp
  have ex: "\<exists>d :: file_doc. f_id d = Oid ''f00000000000000000000004'' \<and> f_localPath d = None
                 \<and> f_isPublic d = JBool False"
    using folder_create_no_blob [OF run folder] by auto
  show ?thesis
    using run ex by (rule conjI)
qed

section \<open>What an upload persists\<close>




section \<open>Publishing and unpublishing\<close>

text \<open>
  Claim C7. Publishing twice is the same as publishing once, in the answer and in the
  state, and so is unpublishing twice. When the session resolves to the owner of the
  file, every publish and every unpublish is answered with 200, whatever the flag was,
  and after any non-empty sequence of them the document of the last answer carries the
  value of the last operation.
\<close>

theorem publish_unpublish_idempotent:
  assumes "session_user req s = Some userId"
    and "ObjectId e (JStr (params_id req)) = Some fid"
    and "ObjectId e (JStr userId) = Some uid"
    and "\<exists>d\<in>set (files s). f_id d = fid \<and> f_userId d = Some uid"
  shows "putPublish e req (snd (putPublish e req s)) = putPublish e req s
       \<and> putUnpublish e req (snd (putUnpublish e req s)) = putUnpublish e req s
       \<and> (\<forall>vs r0. vs \<noteq> [] \<longrightarrow>
            (\<exists>d s'. fold (\<lambda>v rs. (if v then putPublish else putUnpublish) e req (snd rs)) vs (r0, s)
                       = (Json 200 (Document d), s')
                   \<and> f_id d = fid \<and> f_userId d = Some uid \<and> f_isPublic d = JBool (last vs)))"
proof (intro conjI allI impI)
  show "putPublish e req (snd (putPublish e req s)) = putPublish e req s"
    by (simp add: putPublish_eq set_isPublic_again)
  show "putUnpublish e req (snd (putUnpublish e req s)) = putUnpublish e req s"
    by (simp add: putUnpublish_eq set_isPublic_again)
next
  fix vs :: "bool list" and r0 :: response
  assume "vs \<noteq> []"
  moreover have "\<exists>d\<in>set (files s). owned_by fid uid d"
    using assms(4) by (simp add: owned_by_def)
  ultimately show "\<exists>d s'. fold (\<lambda>v rs. (if v then putPublish else putUnpublish) e req (snd rs)) vs (r0, s)
                       = (Json 200 (Document d), s')
                   \<and> f_id d = fid \<and> f_userId d = Some uid \<and> f_isPublic d = JBool (last vs)"
    using set_isPublic_sequence [OF assms(2,3) assms(1), where vs = vs and ini = r0]
    by (simp add: owned_by_def)
qed

text \<open>Alice publishes her file twice and then unpublishes it.\<close>

theorem publish_unpublish_idempotent_witness:
  "session_user (request0\<lparr>x_token := Some ''ta'', params_id := ''f00000000000000000000002''\<rparr>)
     sample_state = Some alice
   \<and> ObjectId sample_env (JStr ''f00000000000000000000002'') = Some (Oid ''f00000000000000000000002'')
   \<and> ObjectId sample_env (JStr alice) = Some (Oid alice)
   \<and> file2 \<in> set (files sample_state)
   \<and> f_id file2 = Oid ''f00000000000000000000002'' \<and> f_userId file2 = Some (Oid alice)
   \<and> (\<exists>d s'. fold (\<lambda>v rs. (if v then putPublish else putUnpublish) sample_env
                      (request0\<lparr>x_token := Some ''ta'', params_id := ''f00000000000000000000002''\<rparr>)
                      (snd rs))
                [True, True, False] (not_found, sample_state)
              = (Json 200 (Document d), s')
            \<and> f_id d = Oid ''f00000000000000000000002'' \<and> f_isPublic d = JBool False)"
proof -
  let ?req = "request0\<lparr>x_token := Some ''ta'', params_id := ''f00000000000000000000002''\<rparr>"
  have h1: "session_user ?req sample_state = Some alice"
    by (simp add: sample_defs session_user_def)
  have h2: "ObjectId sample_env (JStr (params_id ?req)) = Some (Oid ''f00000000000000000000002'')"
    by (simp add: sample_defs)
  have h3: "ObjectId sample_env (JStr alice) = Some (Oid alice)"
    by (simp add: sample_defs)
  have h4: "\<exists>d\<in>set (files sample_state).
              f_id d = Oid ''f00000000000000000000002'' \<and> f_userId d = Some (Oid alice)"
    by (simp add: sample_defs)
  have "[True, True, False] \<noteq> []"
    by simp
  with publish_unpublish_idempotent [OF h1 h2 h3 h4]
  have "\<exists>d s'. fold (\<lambda>v rs. (if v then putPublish else putUnpublish) sample_env ?req (snd rs))
                  [True, True, False] (not_found, sample_state)
                = (Json 200 (Document d), s')
              \<and> f_id d = Oid ''f00000000000000000000002''
              \<and> f_userId d = Some (Oid alice) \<and> f_isPublic d = JBool (last [True, True, False])"
    by blast
  then have "\<exists>d s'. fold (\<lambda>v rs. (if v then putPublish else putUnpublish) sample_env ?req (snd rs))
                  [True, True, False] (not_found, sample_state)
                = (Json 200 (Document d), s')
              \<and> f_id d = Oid ''f00000000000000000000002'' \<and> f_isPublic d = JBool False"
    by auto
  moreover have "file2 \<in> set (files sample_state)
      \<and> f_id file2 = Oid ''f00000000000000000000002'' \<and> f_userId file2 = Some (Oid alice)"
    by (simp add: sample_defs)
  ultimately show ?thesis
    using h1 h2 h3 by simp
qed

section \<open>The size of a thumbnail is not validated\<close>

text \<open>
  Claim C10. When \<open>getFile\<close> has found the document, the gate for private files lets the
  request pass and the document is no folder, any non-empty value \<open>w\<close> of the parameter
  \<open>size\<close> is appended to the path as it is: the answer is the content of the blob at
  \<open>localPath_w\<close> if there is one, and 404 \<open>Not found\<close> otherwise. No width is refused.
\<close>

theorem getFile_size_unvalidated:
  assumes "ObjectId e (JStr (params_id req)) = Some fid"
    and "find (\<lambda>d. f_id d = fid) (files s) = Some fdoc"
    and "private_gate req s fdoc = None"
    and "f_type fdoc \<noteq> JStr ''folder''"
    and "query_size req = Some w" and "w \<noteq> []"
  shows "getFile e req s =
           (case disk s (template_path (f_localPath fdoc) @ ''_'' @ w) of
              None \<Rightarrow> Json 404 (Error ''Not found'')
            | Some content \<Rightarrow> Piped (setHeader_value (mime_lookup e (f_name fdoc))) content)"
  using assms by (simp add: getFile_def filePath_def not_found_def split: option.splits)

theorem getFile_size_unvalidated_witness:
  "ObjectId sample_env (JStr ''f00000000000000000000003'') = Some (Oid ''f00000000000000000000003'')
   \<and> find (\<lambda>d. f_id d = Oid ''f00000000000000000000003'') (files sample_state) = Some image3
   \<and> private_gate (request0\<lparr>params_id := ''f00000000000000000000003'', query_size := Some ''bogus''\<rparr>)
        sample_state image3 = None
   \<and> f_type image3 \<noteq> JStr ''folder''
   \<and> getFile sample_env
        (request0\<lparr>params_id := ''f00000000000000000000003'', query_size := Some ''bogus''\<rparr>)
        sample_state = Piped (Mime ''image/png'') ''anything''
   \<and> getFile sample_env
        (request0\<lparr>params_id := ''f00000000000000000000003'', query_size := Some ''250''\<rparr>)
        sample_state = Json 404 (Error ''Not found'')"
  using getFile_size_unvalidated
          [where e = sample_env and s = sample_state and fdoc = image3 and w = "''bogus''"
             and fid = "Oid ''f00000000000000000000003''"
             and req = "request0\<lparr>params_id := ''f00000000000000000000003'', query_size := Some ''bogus''\<rparr>"]
        getFile_size_unvalidated
          [where e = sample_env and s = sample_state and fdoc = image3 and w = "''250''"
             and fid = "Oid ''f00000000000000000000003''"
             and req = "request0\<lparr>params_id := ''f00000000000000000000003'', query_size := Some ''250''\<rparr>"]
  by (simp add: sample_defs private_gate_def setHeader_value_def)

section \<open>The content type of a served file\<close>

text \<open>
  Claim C9, as the handler has it. Whenever \<open>getFile\<close> serves a file, the value given to
  the header \<open>Content-Type\<close> is the result of \<open>mime.lookup\<close> on the name of the document:
  the type of the extension when the library knows one, and otherwise the \<open>false\<close> that
  the library returns. The handler substitutes no other type.
\<close>

theorem getFile_content_type:
  assumes "getFile e req s = Piped ct content"
  shows "\<exists>fid file. ObjectId e (JStr (params_id req)) = Some fid
           \<and> find (\<lambda>d. f_id d = fid) (files s) = Some file
           \<and> ct = (case mime_lookup e (f_name file) of None \<Rightarrow> No_mime | Some t \<Rightarrow> Mime t)"
  using assms
  by (auto simp: getFile_def not_found_def bad_request_def setHeader_value_def private_gate_def
           split: option.splits if_splits)

theorem getFile_content_type_witness:
  "getFile sample_env (request0\<lparr>params_id := ''f00000000000000000000002'', x_token := Some ''ta''\<rparr>)
     sample_state = Piped (Mime ''text/plain'') ''remember''
   \<and> (\<exists>fid file. ObjectId sample_env (JStr ''f00000000000000000000002'') = Some fid
          \<and> find (\<lambda>d. f_id d = fid) (files sample_state) = Some file
          \<and> Mime ''text/plain'' = (case mime_lookup sample_env (f_name file) of
                                      None \<Rightarrow> No_mime | Some t \<Rightarrow> Mime t))"
proof -
  have run: "getFile sample_env
               (request0\<lparr>params_id := ''f00000000000000000000002'', x_token := Some ''ta''\<rparr>)
               sample_state = Piped (Mime ''text/plain'') ''remember''"
    by (simp add: sample_defs getFile_def private_gate_def session_user_def filePath_def
                  setHeader_value_def)
  from getFile_content_type [OF run] run show ?thesis
    by simp
qed

text \<open>
  The claim as the specification has it fails for a name with an extension that the
  library does not know: the file of Bob is served, and the header is not given
  \<open>application/octet-stream\<close>.
\<close>

theorem getFile_unknown_extension_counterexample:
  "mime_lookup sample_env (f_name blob5) = None
   \<and> getFile sample_env (request0\<lparr>params_id := ''f00000000000000000000005''\<rparr>) sample_state
       = Piped No_mime ''raw''
   \<and> getFile sample_env (request0\<lparr>params_id := ''f00000000000000000000005''\<rparr>) sample_state
       \<noteq> Piped (Mime ''application/octet-stream'') ''raw''"
  by (simp add: sample_defs getFile_def private_gate_def filePath_def setHeader_value_def)

section \<open>The worker checks a job against the store\<close>




section \<open>The three thumbnails of a job\<close>

text \<open>
  Claim C2, as the worker has it. For a job that resolves to a document, each of the
  widths 500, 250 and 100 is a unit of its own: what the job leaves at the path of a
  width is what the generation of that width alone leaves there, whether or not the
  other widths fail. The job is completed when all three are fulfilled and fails as
  soon as one of them is rejected.
\<close>

theorem thumbnails_independent:
  assumes "truthy (j_fileId j)" and "truthy (j_userId j)"
    and "ObjectId e (j_fileId j) = Some fid" and "ObjectId e (j_userId j) = Some uid"
    and "find (owned_by fid uid) (files s) = Some fdoc"
  shows "fst (process_job e c j s) =
           (if \<forall>w\<in>set sizes. fst (generateThumbnail e c (f_localPath fdoc) w s)
            then Completed else Failed ThumbnailError)
       \<and> (\<forall>p. f_localPath fdoc = Some p \<longrightarrow>
            (\<forall>w\<in>set sizes.
               disk (snd (process_job e c j s)) (p @ ''_'' @ string_of_nat w)
                 = disk (snd (generateThumbnail e c (Some p) w s)) (p @ ''_'' @ string_of_nat w)))"
proof (cases "f_localPath fdoc")
  case None
  then show ?thesis
    by (auto simp: process_job_resolved [OF assms] start_all_None Promise_all_def
                   generateThumbnail_def sizes_def)
next
  case (Some p)
  have flags: "fst (start_all e c (Some p) sizes s)
                 = map (\<lambda>w. fst (generateThumbnail e c (Some p) w s)) sizes"
    by (rule start_all_flags) simp
  have own: "\<forall>w\<in>set sizes. disk (snd (start_all e c (Some p) sizes s)) (p @ ''_'' @ string_of_nat w)
               = disk (snd (generateThumbnail e c (Some p) w s)) (p @ ''_'' @ string_of_nat w)"
    by (rule start_all_own [OF refl sizes_distinct_paths]) simp
  show ?thesis
    using own by (simp add: process_job_resolved [OF assms] Some flags Promise_all_def list_all_iff)
qed

theorem thumbnails_independent_witness:
  "truthy (JStr ''f00000000000000000000003'') \<and> truthy (JStr alice)
   \<and> ObjectId sample_env (JStr ''f00000000000000000000003'') = Some (Oid ''f00000000000000000000003'')
   \<and> ObjectId sample_env (JStr alice) = Some (Oid alice)
   \<and> find (owned_by (Oid ''f00000000000000000000003'') (Oid alice)) (files sample_state) = Some image3
   \<and> fst (process_job sample_env sample_chance
            \<lparr>j_userId = JStr alice, j_fileId = JStr ''f00000000000000000000003''\<rparr> sample_state)
       = Completed
   \<and> disk (snd (process_job sample_env sample_chance
            \<lparr>j_userId = JStr alice, j_fileId = JStr ''f00000000000000000000003''\<rparr> sample_state))
        ''/tmp/files_manager/u3_250'' = Some ''250:pixels''"
  using thumbnails_independent
          [where e = sample_env and c = sample_chance and s = sample_state
             and j = "\<lparr>j_userId = JStr alice, j_fileId = JStr ''f00000000000000000000003''\<rparr>"
             and fid = "Oid ''f00000000000000000000003''" and uid = "Oid alice" and fdoc = image3]
  by (simp add: sample_defs owned_by_def generateThumbnail_def writeFile_def sizes_def
                string_of_nat_sizes)

text \<open>
  The claim as the specification has it fails when one width alone is rejected: the
  write of the width 500 fails, the widths 250 and 100 are written, and the job fails
  all the same.
\<close>

theorem thumbnails_aggregate_counterexample:
  "fst (process_job sample_env
          chance_500_rejected
          \<lparr>j_userId = JStr alice, j_fileId = JStr ''f00000000000000000000003''\<rparr> sample_state)
     = Failed ThumbnailError
   \<and> disk (snd (process_job sample_env
          chance_500_rejected
          \<lparr>j_userId = JStr alice, j_fileId = JStr ''f00000000000000000000003''\<rparr> sample_state))
        ''/tmp/files_manager/u3_250'' = Some ''250:pixels''
   \<and> disk (snd (process_job sample_env
          chance_500_rejected
          \<lparr>j_userId = JStr alice, j_fileId = JStr ''f00000000000000000000003''\<rparr> sample_state))
        ''/tmp/files_manager/u3_100'' = Some ''100:pixels''"
  by (simp add: sample_defs process_job_def owned_by_def generateThumbnail_def writeFile_def
                sizes_def string_of_nat_sizes Promise_all_def)


section \<open>Listing the root after uploading into it\<close>

text \<open>
  Claim C4 fails on the handlers. \<open>postUpload\<close> stores the number \<open>0\<close> as the parent of a
  document uploaded without a parent, and \<open>getIndex\<close> matches the parent against a string,
  \<open>'0'\<close> when the query names none. Hence uploads without a parent never change what
  \<open>getIndex\<close> answers, for any query: after 25 such uploads by Alice, which add 25
  documents, both the first and the second page of her root are empty.
\<close>

theorem root_uploads_not_listed:
  assumes "\<forall>(c, req)\<in>set ups. body_parentId req = JUndefined \<or> body_parentId req = JNum 0"
  shows "getIndex e q (run_uploads e ups s) = getIndex e q s"
  using assms
proof (induction ups arbitrary: s)
  case Nil
  then show ?case by (simp add: run_uploads_def)
next
  case (Cons u ups)
  obtain c req where u: "u = (c, req)" by (cases u)
  obtain r s1 where step: "postUpload e c req s = (r, s1)" by (cases "postUpload e c req s")
  have "getIndex e q s1 = getIndex e q s"
    using postUpload_root_unlisted [OF step] Cons.prems u by simp
  moreover have "run_uploads e (u # ups) s = run_uploads e ups s1"
    using u step by (simp add: run_uploads_def)
  moreover have "getIndex e q (run_uploads e ups s1) = getIndex e q s1"
    using Cons.IH Cons.prems by simp
  ultimately show ?case by simp
qed

theorem root_uploads_not_listed_witness:
  "length (files (run_uploads sample_env (map upload_no [0..<25]) sample_state))
       = length (files sample_state) + 25
   \<and> getIndex sample_env (request0\<lparr>x_token := Some ''ta''\<rparr>)
        (run_uploads sample_env (map upload_no [0..<25]) sample_state)
       = Json 200 (Documents [])
   \<and> getIndex sample_env
        (request0\<lparr>x_token := Some ''ta'', query_parentId := Some ''0'', query_page := Some ''1''\<rparr>)
        (run_uploads sample_env (map upload_no [0..<25]) sample_state)
       = Json 200 (Documents [])"
proof -
  have root: "\<forall>(c, req)\<in>set (map upload_no [0..<25]).
                body_parentId req = JUndefined \<or> body_parentId req = JNum 0"
    by (simp add: upload_no_def request0_def)
  have stored: "length (files (run_uploads sample_env (map upload_no [0..<25]) sample_state))
                  = length (files sample_state) + 25"
    using run_uploads_length [of sample_state "[0..<25]"] by (simp add: sample_defs)
  have page0: "getIndex sample_env (request0\<lparr>x_token := Some ''ta''\<rparr>) sample_state
                 = Json 200 (Documents [])"
    by (simp add: sample_defs getIndex_def session_user_def match_stage_def pageSize_def)
  have page1: "getIndex sample_env
                 (request0\<lparr>x_token := Some ''ta'', query_parentId := Some ''0'',
                            query_page := Some ''1''\<rparr>) sample_state
                 = Json 200 (Documents [])"
    by (simp add: sample_defs getIndex_def session_user_def match_stage_def pageSize_def)
  show ?thesis
    using stored page0 page1
      root_uploads_not_listed [OF root, of sample_env "request0\<lparr>x_token := Some ''ta''\<rparr>" sample_state]
      root_uploads_not_listed [OF root, of sample_env
         "request0\<lparr>x_token := Some ''ta'', query_parentId := Some ''0'', query_page := Some ''1''\<rparr>"
         sample_state]
    by simp
qed


end
